theory Spec2Isabelle
  imports Complex_Main "HOL-Library.Sublist" "HOL-Library.Char_ord" "HOL-Library.List_Lexorder"
begin

section \<open>Technology-cost preprocessing of the investment notebook\<close>

text \<open>
  The development embeds the cost-preprocessing cells of
  \<^verbatim>\<open>02-pypsa-investment.ipynb\<close> (unit rescaling, pivoting, default filling,
  fuel and emission propagation, the annuity function, marginal and capital cost) and the
  generator loop of \<^verbatim>\<open>01-pypsa-dispatch.ipynb\<close>.

  Numbers: a 64-bit float is a real number or one of the three special values of IEEE
  arithmetic; the sign of zero is not represented. The arithmetic on table columns is
  idealised: its results are not rounded and a finite result does not overflow. The
  scalar evaluation of the annuity function rounds every operation to the nearest
  double and lets the power overflow, as Python does.
\<close>

subsection \<open>Exceptions\<close>

text \<open>
  The exceptions Python and pandas raise in the embedded cells. \<open>ComplexValue\<close> is
  not an exception: Python 3 returns a complex number for a negative float raised to a
  non-integer power, and the model of scalar arithmetic stops there. The last two are
  error names that only the specification uses; no definition below produces them.
\<close>

datatype error =
    KeyError
  | ValueError
  | AttributeError
  | ZeroDivisionError
  | OverflowError
  | ComplexValue
  | MissingReferenceError
  | ProfileLengthMismatchError

subsection \<open>Floats\<close>

datatype float = Fin real | PInf | NInf | NaN

text \<open>numpy arithmetic on float64 scalars and columns: it never raises.\<close>

fun fadd :: "float \<Rightarrow> float \<Rightarrow> float" where
  "fadd (Fin a) (Fin b) = Fin (a + b)"
| "fadd NaN _ = NaN"
| "fadd _ NaN = NaN"
| "fadd PInf NInf = NaN"
| "fadd NInf PInf = NaN"
| "fadd PInf _ = PInf"
| "fadd _ PInf = PInf"
| "fadd NInf _ = NInf"
| "fadd _ NInf = NInf"

fun fneg :: "float \<Rightarrow> float" where
  "fneg (Fin a) = Fin (- a)"
| "fneg PInf = NInf"
| "fneg NInf = PInf"
| "fneg NaN = NaN"

definition fsub :: "float \<Rightarrow> float \<Rightarrow> float" where
  "fsub a b = fadd a (fneg b)"

text \<open>The sign of a float: \<open>1\<close>, \<open>0\<close> or \<open>-1\<close>; \<open>NaN\<close> is never asked.\<close>

fun fsgn :: "float \<Rightarrow> real" where
  "fsgn (Fin a) = sgn a"
| "fsgn PInf = 1"
| "fsgn NInf = - 1"
| "fsgn NaN = 0"

definition inf_of_sign :: "real \<Rightarrow> float" where
  "inf_of_sign s = (if s = 0 then NaN else if 0 < s then PInf else NInf)"

fun fmul :: "float \<Rightarrow> float \<Rightarrow> float" where
  "fmul (Fin a) (Fin b) = Fin (a * b)"
| "fmul NaN _ = NaN"
| "fmul _ NaN = NaN"
| "fmul a b = inf_of_sign (fsgn a * fsgn b)"

fun fdiv :: "float \<Rightarrow> float \<Rightarrow> float" where
  "fdiv (Fin a) (Fin b) = (if b = 0 then inf_of_sign (sgn a) else Fin (a / b))"
| "fdiv NaN _ = NaN"
| "fdiv _ NaN = NaN"
| "fdiv (Fin a) _ = Fin 0"
| "fdiv a (Fin b) = inf_of_sign (fsgn a * (if b < 0 then - 1 else 1))"
| "fdiv _ _ = NaN"

subsection \<open>Strings\<close>

text \<open>\<^verbatim>\<open>pat in s\<close>, as \<^verbatim>\<open>Series.str.contains(pat)\<close> tests it for a pattern
  without regular-expression characters.\<close>

fun str_contains :: "string \<Rightarrow> string \<Rightarrow> bool" where
  "str_contains pat [] = (pat = [])"
| "str_contains pat (c # cs) = (prefix pat (c # cs) \<or> str_contains pat cs)"

text \<open>\<^verbatim>\<open>s.replace(pat, repl)\<close>: every occurrence, left to right, without overlap.\<close>

function str_replace :: "string \<Rightarrow> string \<Rightarrow> string \<Rightarrow> string" where
  "str_replace pat repl s =
     (if pat = [] then repl @ concat (map (\<lambda>c. c # repl) s)
      else if s = [] then []
      else if prefix pat s then repl @ str_replace pat repl (drop (length pat) s)
      else hd s # str_replace pat repl (tl s))"
  by pat_completeness auto
termination
  by (relation "measure (\<lambda>(pat, repl, s). length s)") auto

declare str_replace.simps [simp del]

subsection \<open>The raw cost table\<close>

text \<open>
  \<^verbatim>\<open>costs = pd.read_csv(url, index_col=[0, 1])\<close>: one row per
  (technology, parameter) with a numeric value and a unit string. The field \<open>val\<close> is
  the column \<^verbatim>\<open>value\<close>.
\<close>

record row =
  technology :: string
  parameter :: string
  val :: float
  unit :: string

text \<open>
  \<^verbatim>\<open>costs.loc[costs.unit.str.contains("/kW"), "value"] *= 1e3\<close> and
  \<^verbatim>\<open>costs.unit = costs.unit.str.replace("/kW", "/MW")\<close>.
\<close>

definition rescale_row :: "row \<Rightarrow> row" where
  "rescale_row r =
     r\<lparr>val := (if str_contains ''/kW'' (unit r) then fmul (val r) (Fin 1000) else val r),
       unit := str_replace ''/kW'' ''/MW'' (unit r)\<rparr>"

definition rescale :: "row list \<Rightarrow> row list" where
  "rescale rows = map rescale_row rows"

subsection \<open>The pivoted cost table\<close>

text \<open>
  A float-valued data frame: row labels (technologies), column labels (parameters) and
  the cell of each pair. The cell of a pair outside the labels is never read.
\<close>

record wide =
  index :: "string list"
  columns :: "string list"
  cell :: "string \<Rightarrow> string \<Rightarrow> float"

definition bind_err :: "error + 'a \<Rightarrow> ('a \<Rightarrow> error + 'b) \<Rightarrow> error + 'b" where
  "bind_err m f = (case m of Inl e \<Rightarrow> Inl e | Inr x \<Rightarrow> f x)"

text \<open>
  \<^verbatim>\<open>costs.value.unstack()\<close>: the last index level becomes the columns. pandas raises
  \<^verbatim>\<open>ValueError\<close> (index contains duplicate entries) when a (technology, parameter)
  pair occurs twice; labels come out sorted, a pair without a row holds \<open>NaN\<close>.
\<close>

definition unstack :: "row list \<Rightarrow> error + wide" where
  "unstack rows =
     (if \<not> distinct (map (\<lambda>r. (technology r, parameter r)) rows) then Inl ValueError
      else Inr \<lparr>index = sort (remdups (map technology rows)),
                columns = sort (remdups (map parameter rows)),
                cell = (\<lambda>t p. case find (\<lambda>r. technology r = t \<and> parameter r = p) rows of
                                 None \<Rightarrow> NaN | Some r \<Rightarrow> val r)\<rparr>)"

text \<open>The dictionary \<^verbatim>\<open>defaults\<close> of the cell.\<close>

definition defaults :: "(string \<times> real) list" where
  "defaults =
     [(''FOM'', 0), (''VOM'', 0), (''efficiency'', 1), (''fuel'', 0), (''investment'', 0),
      (''lifetime'', 25), (''CO2 intensity'', 0), (''discount rate'', 7 / 100)]"

text \<open>
  \<^verbatim>\<open>.fillna(defaults)\<close> with a dictionary: in every column named by a key, each
  \<open>NaN\<close> cell takes the key's value; nothing else changes and no column is added.
\<close>

definition fillna :: "(string \<times> real) list \<Rightarrow> wide \<Rightarrow> wide" where
  "fillna d df =
     df\<lparr>cell := (\<lambda>t p.
        if t \<in> set (index df) \<and> p \<in> set (columns df) \<and> cell df t p = NaN
        then (case map_of d p of None \<Rightarrow> NaN | Some v \<Rightarrow> Fin v)
        else cell df t p)\<rparr>"

text \<open>
  \<^verbatim>\<open>costs.at[r, c]\<close> read: \<^verbatim>\<open>KeyError\<close> for a label that is not there.
  \<^verbatim>\<open>costs.at[r, c] = v\<close>: writes the one cell; a label that is not there is appended
  (pandas falls back to \<^verbatim>\<open>.loc\<close>, which enlarges the frame), its other cells
  \<open>NaN\<close>.
\<close>

definition at_get :: "wide \<Rightarrow> string \<Rightarrow> string \<Rightarrow> error + float" where
  "at_get df r c =
     (if r \<in> set (index df) \<and> c \<in> set (columns df) then Inr (cell df r c) else Inl KeyError)"

definition at_set :: "wide \<Rightarrow> string \<Rightarrow> string \<Rightarrow> float \<Rightarrow> wide" where
  "at_set df r c v =
     \<lparr>index = (if r \<in> set (index df) then index df else index df @ [r]),
      columns = (if c \<in> set (columns df) then columns df else columns df @ [c]),
      cell = (\<lambda>t p.
        if t = r \<and> p = c then v
        else if (t = r \<and> r \<notin> set (index df)) \<or> (p = c \<and> c \<notin> set (columns df)) then NaN
        else cell df t p)\<rparr>"

text \<open>
  \<^verbatim>\<open>costs.at["OCGT", "fuel"] = costs.at["gas", "fuel"]\<close>
  \<^verbatim>\<open>costs.at["CCGT", "fuel"] = costs.at["gas", "fuel"]\<close>
  \<^verbatim>\<open>costs.at["OCGT", "CO2 intensity"] = costs.at["gas", "CO2 intensity"]\<close>
  \<^verbatim>\<open>costs.at["CCGT", "CO2 intensity"] = costs.at["gas", "CO2 intensity"]\<close>
\<close>

definition copy_at :: "wide \<Rightarrow> string \<Rightarrow> string \<Rightarrow> string \<Rightarrow> error + wide" where
  "copy_at df dst src c = bind_err (at_get df src c) (\<lambda>v. Inr (at_set df dst c v))"

definition propagate :: "wide \<Rightarrow> error + wide" where
  "propagate df =
     bind_err (copy_at df ''OCGT'' ''gas'' ''fuel'') (\<lambda>df1.
     bind_err (copy_at df1 ''CCGT'' ''gas'' ''fuel'') (\<lambda>df2.
     bind_err (copy_at df2 ''OCGT'' ''gas'' ''CO2 intensity'') (\<lambda>df3.
     copy_at df3 ''CCGT'' ''gas'' ''CO2 intensity'')))"

subsection \<open>The preprocessing cell\<close>

text \<open>
  The variable \<^verbatim>\<open>costs\<close> holds the raw table before the cell and the pivoted
  table after it. On a pivoted table the cell's first statement reads
  \<^verbatim>\<open>costs.unit.str\<close>: the frame has no such column, or a float column of that name
  without string accessor, and pandas raises \<^verbatim>\<open>AttributeError\<close> either way.
\<close>

datatype frame = Long "row list" | Wide wide

definition cost_cell :: "frame \<Rightarrow> error + frame" where
  "cost_cell costs =
     (case costs of
        Wide w \<Rightarrow> Inl AttributeError
      | Long rows \<Rightarrow>
          bind_err (unstack (rescale rows)) (\<lambda>w.
          bind_err (propagate (fillna defaults w)) (\<lambda>w'. Inr (Wide w'))))"

definition run_twice :: "frame \<Rightarrow> error + frame" where
  "run_twice costs = bind_err (cost_cell costs) cost_cell"

subsection \<open>The annuity function\<close>

text \<open>
  \<^verbatim>\<open>def annuity(r, n): return r / (1.0 - 1.0 / (1.0 + r) ** n)\<close>

  Python dispatches the operators on the operands. Called with Python numbers, as in
  \<^verbatim>\<open>annuity(0.07, 20)\<close>, every operation is one of Python's \<^verbatim>\<open>float\<close> (an
  integer argument is converted first) and a zero divisor raises
  \<^verbatim>\<open>ZeroDivisionError\<close>; this is \<open>annuity\<close>. Called with the float64 scalars of a table row, as in
  \<^verbatim>\<open>costs.apply(lambda x: annuity(x["discount rate"], x["lifetime"]), axis=1)\<close>,
  numpy divides by zero with a warning and returns an infinity or \<open>NaN\<close>; this is
  \<open>annuity_np\<close>.
\<close>

text \<open>
  Rounding to the nearest double, ties to even: \<open>binade x\<close> is the exponent of \<open>x\<close>,
  \<open>ulp_at e\<close> the spacing of the doubles with exponent \<open>e\<close> (from exponent -1022 down
  the spacing stays that of the subnormal numbers), \<open>max_double\<close> the largest finite
  double. A result that rounds above it becomes an infinity.
\<close>

definition binade :: "real \<Rightarrow> int" where
  "binade x = \<lfloor>log 2 \<bar>x\<bar>\<rfloor>"

definition ulp_at :: "int \<Rightarrow> real" where
  "ulp_at e = 2 powi (max e (- 1022) - 52)"

definition round_half_even :: "real \<Rightarrow> int" where
  "round_half_even m =
     (let f = \<lfloor>m\<rfloor>; d = m - of_int f
      in if d < 1 / 2 then f else if 1 / 2 < d then f + 1 else if even f then f else f + 1)"

definition round_double :: "real \<Rightarrow> real" where
  "round_double x =
     (if x = 0 then 0
      else of_int (round_half_even (x / ulp_at (binade x))) * ulp_at (binade x))"

definition max_double :: real where
  "max_double = (2 ^ 53 - 1) * 2 ^ 971"

definition rnd :: "float \<Rightarrow> float" where
  "rnd a =
     (case a of
        Fin x \<Rightarrow>
          (let y = round_double x
           in if max_double < y then PInf else if y < - max_double then NInf else Fin y)
      | _ \<Rightarrow> a)"

text \<open>
  The operators of Python's \<^verbatim>\<open>float\<close>. Sum, difference and quotient round and may
  become infinite; a zero divisor raises. The power follows \<^verbatim>\<open>float_pow\<close> of
  CPython case by case: exponent zero, \<open>NaN\<close>, infinite exponent, infinite base, base
  zero, negative base, base one, and then the power function of the C library, taken
  as correctly rounded, whose overflow raises \<^verbatim>\<open>OverflowError\<close> and whose underflow
  passes.
\<close>

definition float_add :: "float \<Rightarrow> float \<Rightarrow> float" where
  "float_add a b = rnd (fadd a b)"

definition float_sub :: "float \<Rightarrow> float \<Rightarrow> float" where
  "float_sub a b = rnd (fsub a b)"

definition float_div :: "float \<Rightarrow> float \<Rightarrow> error + float" where
  "float_div a b = (if b = Fin 0 then Inl ZeroDivisionError else Inr (rnd (fdiv a b)))"

definition is_odd_integer :: "real \<Rightarrow> bool" where
  "is_odd_integer y = (y = of_int \<lfloor>y\<rfloor> \<and> odd \<lfloor>y\<rfloor>)"

definition float_pow :: "float \<Rightarrow> float \<Rightarrow> error + float" where
  "float_pow iv iw =
     (if iw = Fin 0 then Inr (Fin 1)
      else if iv = NaN then Inr NaN
      else if iw = NaN then Inr (if iv = Fin 1 then Fin 1 else NaN)
      else case iw of
        PInf \<Rightarrow> (case iv of
            Fin x \<Rightarrow> Inr (if \<bar>x\<bar> = 1 then Fin 1 else if 1 < \<bar>x\<bar> then PInf else Fin 0)
          | _ \<Rightarrow> Inr PInf)
      | NInf \<Rightarrow> (case iv of
            Fin x \<Rightarrow> Inr (if \<bar>x\<bar> = 1 then Fin 1 else if 1 < \<bar>x\<bar> then Fin 0 else PInf)
          | _ \<Rightarrow> Inr (Fin 0))
      | NaN \<Rightarrow> Inr NaN
      | Fin y \<Rightarrow> (case iv of
            PInf \<Rightarrow> Inr (if 0 < y then PInf else Fin 0)
          | NInf \<Rightarrow> Inr (if 0 < y then (if is_odd_integer y then NInf else PInf) else Fin 0)
          | NaN \<Rightarrow> Inr NaN
          | Fin x \<Rightarrow>
              (if x = 0 then (if y < 0 then Inl ZeroDivisionError else Inr (Fin 0))
               else if x < 0 \<and> y \<noteq> of_int \<lfloor>y\<rfloor> then Inl ComplexValue
               else if x = 1 then Inr (Fin 1)
               else (case rnd (Fin (if 0 < x then x powr y else x powi \<lfloor>y\<rfloor>)) of
                       Fin z \<Rightarrow> Inr (Fin z)
                     | _ \<Rightarrow> Inl OverflowError))))"

definition annuity :: "float \<Rightarrow> float \<Rightarrow> error + float" where
  "annuity r n =
     bind_err (float_pow (float_add (Fin 1) r) n) (\<lambda>p.
     bind_err (float_div (Fin 1) p) (\<lambda>q.
     float_div r (float_sub (Fin 1) q)))"

text \<open>The power function of the C library, which numpy calls, with its special cases.\<close>

definition fpow :: "float \<Rightarrow> float \<Rightarrow> float" where
  "fpow x y =
     (if y = Fin 0 \<or> x = Fin 1 then Fin 1
      else case x of
        NaN \<Rightarrow> NaN
      | Fin a \<Rightarrow> (case y of
            NaN \<Rightarrow> NaN
          | Fin b \<Rightarrow>
              (if 0 < a then Fin (a powr b)
               else if a = 0 then (if 0 < b then Fin 0 else PInf)
               else if b = of_int \<lfloor>b\<rfloor> then Fin (a powi \<lfloor>b\<rfloor>)
               else NaN)
          | PInf \<Rightarrow> (if \<bar>a\<bar> < 1 then Fin 0 else if \<bar>a\<bar> = 1 then Fin 1 else PInf)
          | NInf \<Rightarrow> (if \<bar>a\<bar> < 1 then PInf else if \<bar>a\<bar> = 1 then Fin 1 else Fin 0))
      | PInf \<Rightarrow> (case y of
            NaN \<Rightarrow> NaN
          | Fin b \<Rightarrow> (if 0 < b then PInf else Fin 0)
          | PInf \<Rightarrow> PInf
          | NInf \<Rightarrow> Fin 0)
      | NInf \<Rightarrow> (case y of
            NaN \<Rightarrow> NaN
          | Fin b \<Rightarrow>
              (if 0 < b then (if b = of_int \<lfloor>b\<rfloor> \<and> odd \<lfloor>b\<rfloor> then NInf else PInf)
               else Fin 0)
          | PInf \<Rightarrow> PInf
          | NInf \<Rightarrow> Fin 0))"

definition annuity_np :: "float \<Rightarrow> float \<Rightarrow> float" where
  "annuity_np r n = fdiv r (fsub (Fin 1) (fdiv (Fin 1) (fpow (fadd (Fin 1) r) n)))"

subsection \<open>Marginal and capital cost\<close>

text \<open>
  \<^verbatim>\<open>costs[c]\<close> reads a column (\<^verbatim>\<open>KeyError\<close> when there is none) and
  \<^verbatim>\<open>costs[c] = s\<close> writes one, appended when new. A column is a function of the row
  label.
\<close>

definition getitem :: "wide \<Rightarrow> string \<Rightarrow> error + (string \<Rightarrow> float)" where
  "getitem df c = (if c \<in> set (columns df) then Inr (\<lambda>t. cell df t c) else Inl KeyError)"

definition setitem :: "wide \<Rightarrow> string \<Rightarrow> (string \<Rightarrow> float) \<Rightarrow> wide" where
  "setitem df c s =
     df\<lparr>columns := (if c \<in> set (columns df) then columns df else columns df @ [c]),
        cell := (\<lambda>t p. if p = c then s t else cell df t p)\<rparr>"

text \<open>
  \<^verbatim>\<open>costs["marginal_cost"] = costs["VOM"] + costs["fuel"] / costs["efficiency"]\<close>
\<close>

definition marginal_cost :: "wide \<Rightarrow> error + wide" where
  "marginal_cost df =
     bind_err (getitem df ''VOM'') (\<lambda>vom.
     bind_err (getitem df ''fuel'') (\<lambda>fuel.
     bind_err (getitem df ''efficiency'') (\<lambda>eff.
     Inr (setitem df ''marginal_cost'' (\<lambda>t. fadd (vom t) (fdiv (fuel t) (eff t)))))))"



subsection \<open>The generator loop of the dispatch notebook\<close>

text \<open>
  \<^verbatim>\<open>marginal_cost=fuel_cost.get(tech, 0) / efficiency.get(tech, 1)\<close>, on the
  dictionaries \<^verbatim>\<open>fuel_cost\<close> and \<^verbatim>\<open>efficiency\<close> of Python numbers.
\<close>

definition py_truediv :: "real \<Rightarrow> real \<Rightarrow> error + real" where
  "py_truediv a b = (if b = 0 then Inl ZeroDivisionError else Inr (a / b))"

definition dict_get :: "(string \<rightharpoonup> real) \<Rightarrow> string \<Rightarrow> real \<Rightarrow> real" where
  "dict_get d k dflt = (case d k of None \<Rightarrow> dflt | Some v \<Rightarrow> v)"

definition dispatch_marginal_cost ::
  "(string \<rightharpoonup> real) \<Rightarrow> (string \<rightharpoonup> real) \<Rightarrow> string \<Rightarrow> error + real" where
  "dispatch_marginal_cost fuel_cost efficiency tech =
     py_truediv (dict_get fuel_cost tech 0) (dict_get efficiency tech 1)"

text \<open>
  The formula of the notebook's text, \<open>a(r, n) = r / (1 - (1 + r)\<^sup>-\<^sup>n)\<close>, over the
  real numbers, written as the function computes it.
\<close>

definition annuity_value :: "real \<Rightarrow> real \<Rightarrow> real" where
  "annuity_value r n = r / (1 - 1 / (1 + r) powr n)"

subsection \<open>The table after propagation\<close>

text \<open>The frame the four assignments leave behind when none of them raises.\<close>

definition propagated :: "wide \<Rightarrow> wide" where
  "propagated df =
     at_set (at_set (at_set (at_set df
       ''OCGT'' ''fuel'' (cell df ''gas'' ''fuel''))
       ''CCGT'' ''fuel'' (cell df ''gas'' ''fuel''))
       ''OCGT'' ''CO2 intensity'' (cell df ''gas'' ''CO2 intensity''))
       ''CCGT'' ''CO2 intensity'' (cell df ''gas'' ''CO2 intensity'')"

subsection \<open>Example tables\<close>

text \<open>
  A raw table with its own fuel cost for the OCGT row, a pivoted table of the same
  content, a pivoted table without the gas row, and a filled table with every column
  the cost formulas read.
\<close>

definition example_raw :: "row list" where
  "example_raw =
     [\<lparr>technology = ''gas'', parameter = ''fuel'', val = Fin 20, unit = ''EUR/MWh_th''\<rparr>,
      \<lparr>technology = ''gas'', parameter = ''CO2 intensity'', val = Fin (1 / 5),
        unit = ''tCO2/MWh_th''\<rparr>,
      \<lparr>technology = ''OCGT'', parameter = ''investment'', val = Fin 400, unit = ''EUR/kW''\<rparr>,
      \<lparr>technology = ''OCGT'', parameter = ''efficiency'', val = Fin (42 / 100),
        unit = ''per unit''\<rparr>,
      \<lparr>technology = ''OCGT'', parameter = ''fuel'', val = Fin 5, unit = ''EUR/MWh_th''\<rparr>,
      \<lparr>technology = ''CCGT'', parameter = ''lifetime'', val = Fin 30, unit = ''years''\<rparr>]"

definition example_wide :: wide where
  "example_wide =
     \<lparr>index = [''CCGT'', ''OCGT'', ''gas''],
      columns = [''CO2 intensity'', ''efficiency'', ''fuel''],
      cell = (\<lambda>t p.
        if t = ''gas'' \<and> p = ''fuel'' then Fin 20
        else if t = ''gas'' \<and> p = ''CO2 intensity'' then Fin (1 / 5)
        else if t = ''OCGT'' \<and> p = ''efficiency'' then Fin (42 / 100)
        else if t = ''OCGT'' \<and> p = ''fuel'' then Fin 5
        else NaN)\<rparr>"

definition example_no_gas :: wide where
  "example_no_gas =
     \<lparr>index = [''CCGT'', ''OCGT''], columns = [''CO2 intensity'', ''fuel''],
      cell = (\<lambda>t p. Fin 5)\<rparr>"

definition example_costs :: wide where
  "example_costs =
     \<lparr>index = [''OCGT'', ''gas''],
      columns = [''FOM'', ''VOM'', ''discount rate'', ''efficiency'', ''fuel'', ''investment'',
                 ''lifetime''],
      cell = (\<lambda>t p.
        if t = ''OCGT'' \<and> p = ''FOM'' then Fin 2
        else if t = ''OCGT'' \<and> p = ''VOM'' then Fin 4
        else if p = ''discount rate'' then Fin (7 / 100)
        else if t = ''OCGT'' \<and> p = ''efficiency'' then Fin (2 / 5)
        else if p = ''efficiency'' then Fin 1
        else if p = ''fuel'' then Fin 20
        else if t = ''OCGT'' \<and> p = ''investment'' then Fin 400000
        else if p = ''lifetime'' then Fin 25
        else Fin 0)\<rparr>"

section \<open>Properties\<close>

subsection \<open>Replacing the unit string\<close>

lemma str_replace_no_match:
  "pat \<noteq> [] \<Longrightarrow> \<not> str_contains pat s \<Longrightarrow> str_replace pat repl s = s"
proof (induction s)
  case Nil
  then show ?case by (simp add: str_replace.simps)
next
  case (Cons c cs)
  then show ?case by (subst str_replace.simps) simp
qed

lemma kW_nil: "str_replace ''/kW'' ''/MW'' [] = []"
  by (subst str_replace.simps) simp

lemma str_replace_Cons:
  "pat \<noteq> [] \<Longrightarrow> str_replace pat repl (c # cs) =
     (if prefix pat (c # cs) then repl @ str_replace pat repl (drop (length pat) (c # cs))
      else c # str_replace pat repl cs)"
  by (subst str_replace.simps) simp

lemma kW_hit:
  assumes "prefix ''/kW'' s"
  shows "str_replace ''/kW'' ''/MW'' s = ''/MW'' @ str_replace ''/kW'' ''/MW'' (drop 3 s)"
proof (cases s)
  case Nil
  with assms show ?thesis by simp
next
  case (Cons c cs)
  have ne: "''/kW'' \<noteq> []" and len: "length ''/kW'' = 3" by simp_all
  from assms Cons str_replace_Cons [OF ne, of "''/MW''" c cs] len show ?thesis
    by (simp only: if_True)
qed

lemma kW_miss:
  assumes "\<not> prefix ''/kW'' (c # cs)"
  shows "str_replace ''/kW'' ''/MW'' (c # cs) = c # str_replace ''/kW'' ''/MW'' cs"
proof -
  have ne: "''/kW'' \<noteq> []" by simp
  from assms str_replace_Cons [OF ne, of "''/MW''" c cs] show ?thesis
    by (simp only: if_False)
qed

lemma kW_first:
  "str_replace ''/kW'' ''/MW'' s = x # xs \<Longrightarrow> x \<noteq> CHR ''/'' \<Longrightarrow>
   \<exists>t. s = x # t \<and> xs = str_replace ''/kW'' ''/MW'' t"
proof (cases s)
  case Nil
  assume "str_replace ''/kW'' ''/MW'' s = x # xs"
  with Nil show ?thesis by (simp add: kW_nil)
next
  case (Cons c cs)
  assume a: "str_replace ''/kW'' ''/MW'' s = x # xs" and b: "x \<noteq> CHR ''/''"
  show ?thesis
  proof (cases "prefix ''/kW'' s")
    case True
    from a b kW_hit [OF True] show ?thesis by simp
  next
    case False
    with a Cons kW_miss [of c cs] show ?thesis by simp
  qed
qed

lemma kW_head:
  assumes "prefix ''/kW'' (c # str_replace ''/kW'' ''/MW'' cs)"
  shows "prefix ''/kW'' (c # cs)"
proof -
  from assms obtain zs where z: "c # str_replace ''/kW'' ''/MW'' cs = ''/kW'' @ zs"
    by (auto simp: prefix_def)
  then have c: "c = CHR ''/''" and r: "str_replace ''/kW'' ''/MW'' cs = CHR ''k'' # CHR ''W'' # zs"
    by simp_all
  from kW_first [OF r] obtain t where t: "cs = CHR ''k'' # t"
    and r2: "CHR ''W'' # zs = str_replace ''/kW'' ''/MW'' t" by auto
  from kW_first [OF r2 [symmetric]] obtain u where "t = CHR ''W'' # u" by auto
  with c t show ?thesis by simp
qed

lemma kW_gone: "\<not> str_contains ''/kW'' (str_replace ''/kW'' ''/MW'' s)"
proof (induction s rule: length_induct)
  case (1 s)
  show ?case
  proof (cases s)
    case Nil
    then show ?thesis by (simp add: kW_nil)
  next
    case (Cons c cs)
    show ?thesis
    proof (cases "prefix ''/kW'' s")
      case True
      have "length (drop 3 s) < length s" using Cons by simp
      with 1 have "\<not> str_contains ''/kW'' (str_replace ''/kW'' ''/MW'' (drop 3 s))" by blast
      then show ?thesis by (simp add: kW_hit [OF True])
    next
      case False
      have "length cs < length s" using Cons by simp
      with 1 have "\<not> str_contains ''/kW'' (str_replace ''/kW'' ''/MW'' cs)" by blast
      moreover have "\<not> prefix ''/kW'' (c # str_replace ''/kW'' ''/MW'' cs)"
        using False Cons kW_head [of c cs] by blast
      ultimately show ?thesis using False Cons by (simp add: kW_miss)
    qed
  qed
qed

subsection \<open>The annuity as a real function\<close>

lemma bernoulli_powr:
  fixes x p :: real
  assumes "1 < p" "0 < x"
  shows "1 + p * x < (1 + x) powr p"
proof -
  define g where "g = (\<lambda>y::real. (1 + y) powr p - (1 + p * y))"
  have d: "\<And>y. 0 \<le> y \<Longrightarrow> y \<le> x \<Longrightarrow>
      (g has_real_derivative (p * (1 + y) powr (p - 1) - p)) (at y)"
    unfolding g_def by (auto intro!: derivative_eq_intros)
  from MVT2 [of 0 x g "\<lambda>y. p * (1 + y) powr (p - 1) - p"] assms d
  obtain z where z: "0 < z" "z < x" "g x - g 0 = (x - 0) * (p * (1 + z) powr (p - 1) - p)"
    by auto
  have "1 < (1 + z) powr (p - 1)"
    using z(1) assms(1) by simp
  then have "0 < p * (1 + z) powr (p - 1) - p" using assms(1)
    by (simp add: algebra_simps)
  with z assms have "0 < g x - g 0" by simp
  then show ?thesis by (simp add: g_def)
qed


lemma denom_pos:
  fixes r n :: real
  assumes "0 < r" "0 < n"
  shows "0 < 1 - 1 / (1 + r) powr n"
proof -
  have "1 < (1 + r) powr n" using assms by simp
  then have "1 / (1 + r) powr n < 1" by (simp add: divide_less_eq)
  then show ?thesis by simp
qed

lemma annuity_value_deriv_pos:
  fixes x n :: real
  assumes "0 < x" "0 < n"
  shows "\<exists>y. ((\<lambda>r. annuity_value r n) has_real_derivative y) (at x) \<and> 0 < y"
proof -
  let ?D = "1 - (1 + x) powr (- n)"
  let ?E = "n * (1 + x) powr (- n - 1)"
  let ?N = "1 * ?D - x * ?E"
  have eq: "(\<lambda>r. annuity_value r n) = (\<lambda>r. r / (1 - (1 + r) powr (- n)))"
    by (simp add: annuity_value_def fun_eq_iff powr_minus divide_inverse)
  have "(1 + x) powr (- n) < 1" using assms by (intro powr_less_one) simp_all
  then have Dpos: "0 < ?D" by simp
  have dD: "((\<lambda>r. 1 - (1 + r) powr (- n)) has_real_derivative ?E) (at x)"
    using assms by (auto intro!: derivative_eq_intros)
  have der: "((\<lambda>r. r / (1 - (1 + r) powr (- n))) has_real_derivative (?N / (?D * ?D))) (at x)"
    using Dpos by (intro DERIV_divide [OF DERIV_ident dD]) simp
  have bern: "1 + (n + 1) * x < (1 + x) powr (n + 1)"
    using assms by (intro bernoulli_powr) simp_all
  have P: "0 < (1 + x) powr (n + 1)" using assms by simp
  have a: "(1 + x) powr (- n) * (1 + x) powr (n + 1) = 1 + x"
    using assms by (simp add: powr_add [symmetric])
  have b: "(1 + x) powr (- n - 1) * (1 + x) powr (n + 1) = 1"
    using assms by (simp add: powr_add [symmetric])
  have "?N * (1 + x) powr (n + 1) =
      (1 + x) powr (n + 1) - (1 + x) powr (- n) * (1 + x) powr (n + 1)
      - x * n * ((1 + x) powr (- n - 1) * (1 + x) powr (n + 1))"
    by (simp add: algebra_simps)
  also have "\<dots> = (1 + x) powr (n + 1) - (1 + (n + 1) * x)"
    by (simp only: a b) (simp add: algebra_simps)
  finally have "0 < ?N * (1 + x) powr (n + 1)" using bern by simp
  with P have Npos: "0 < ?N" by (simp add: zero_less_mult_iff)
  from Npos Dpos have "0 < ?N / (?D * ?D)" by simp
  with der eq show ?thesis by auto
qed

lemma annuity_value_mono_r:
  fixes r1 r2 n :: real
  assumes "0 < n" "0 < r1" "r1 < r2"
  shows "annuity_value r1 n < annuity_value r2 n"
proof (rule DERIV_pos_imp_increasing [of r1 r2 "\<lambda>r. annuity_value r n", OF assms(3)])
  fix x assume "r1 \<le> x" "x \<le> r2"
  with assms have "0 < x" by simp
  from annuity_value_deriv_pos [OF this assms(1)]
  show "\<exists>y. ((\<lambda>r. annuity_value r n) has_real_derivative y) (at x) \<and> 0 < y" .
qed

lemma annuity_value_antimono_n:
  fixes r n1 n2 :: real
  assumes "0 < r" "0 < n1" "n1 < n2"
  shows "annuity_value r n2 < annuity_value r n1"
proof -
  have lt: "(1 + r) powr n1 < (1 + r) powr n2" using assms by simp
  have p1: "0 < (1 + r) powr n1" using assms by simp
  have "1 / (1 + r) powr n2 < 1 / (1 + r) powr n1"
    using lt p1 by (simp add: frac_less2)
  then have "1 - 1 / (1 + r) powr n1 < 1 - 1 / (1 + r) powr n2" by simp
  moreover have "0 < 1 - 1 / (1 + r) powr n1" using assms by (intro denom_pos)
  moreover have "0 < 1 - 1 / (1 + r) powr n2" using assms by (intro denom_pos) simp_all
  ultimately show ?thesis
    unfolding annuity_value_def using assms(1) by (intro divide_strict_left_mono mult_pos_pos)
qed

subsection \<open>Evaluating the annuity function\<close>

lemma bind_err_simps:
  "bind_err (Inr x) f = f x" "bind_err (Inl e) f = Inl e"
  by (simp_all add: bind_err_def)

lemma binade_eqI:
  assumes "2 powi k \<le> \<bar>x\<bar>" "\<bar>x\<bar> < 2 powi (k + 1)"
  shows "binade x = k"
proof -
  have "(0::real) < 2 powi k" by simp
  with assms(1) have pos: "0 < \<bar>x\<bar>" by linarith
  have e1: "(2::real) powr real_of_int k = 2 powi k"
    by (rule powr_real_of_int') simp_all
  have "(2::real) powr real_of_int (k + 1) = 2 powi (k + 1)"
    by (rule powr_real_of_int') simp_all
  then have e2: "(2::real) powr (real_of_int k + 1) = 2 powi (k + 1)"
    by simp
  show ?thesis
    unfolding binade_def using pos assms by (simp add: floor_log_eq_powr_iff e1 e2)
qed

lemma round_double_eqI:
  assumes "2 powi k \<le> \<bar>x\<bar>" "\<bar>x\<bar> < 2 powi (k + 1)" "- 1022 \<le> k"
  shows "round_double x = of_int (round_half_even (x / 2 powi (k - 52))) * 2 powi (k - 52)"
proof -
  have "(0::real) < 2 powi k" by simp
  with assms(1) have "0 < \<bar>x\<bar>" by linarith
  then have "x \<noteq> 0" by simp
  with binade_eqI [OF assms(1,2)] assms(3) show ?thesis
    by (simp add: round_double_def ulp_at_def max_def)
qed

lemma round_double_0: "round_double 0 = 0"
  by (simp add: round_double_def)

lemma round_double_1: "round_double 1 = 1"
  by (subst round_double_eqI [of 0]) (simp_all add: round_half_even_def)

lemma round_double_2: "round_double 2 = 2"
  by (subst round_double_eqI [of 1]) (simp_all add: round_half_even_def)

lemma round_double_absorb_up: "round_double (1 + 1 / 2 ^ 60) = 1"
  by (subst round_double_eqI [of 0]) (simp_all add: round_half_even_def power_int_minus)

lemma round_double_absorb_60: "round_double (1 - 1 / 2 ^ 60) = 1"
  by (subst round_double_eqI [of "-1"]) (simp_all add: round_half_even_def power_int_minus)

lemma round_double_absorb_64: "round_double (1 - 1 / 2 ^ 64) = 1"
  by (subst round_double_eqI [of "-1"]) (simp_all add: round_half_even_def power_int_minus)

lemma round_double_pow_60: "round_double (2 ^ 60) = 2 ^ 60"
  by (subst round_double_eqI [of 60]) (simp_all add: round_half_even_def power_int_minus)

lemma round_double_pow_64: "round_double (2 ^ 64) = 2 ^ 64"
  by (subst round_double_eqI [of 64]) (simp_all add: round_half_even_def power_int_minus)

lemma round_double_inv_60: "round_double (1 / 2 ^ 60) = 1 / 2 ^ 60"
  by (subst round_double_eqI [of "-60"]) (simp_all add: round_half_even_def power_int_minus)

lemma round_double_inv_64: "round_double (1 / 2 ^ 64) = 1 / 2 ^ 64"
  by (subst round_double_eqI [of "-64"]) (simp_all add: round_half_even_def power_int_minus)

lemma rnd_Fin:
  "round_double x = y \<Longrightarrow> \<bar>y\<bar> \<le> max_double \<Longrightarrow> rnd (Fin x) = Fin y"
  by (auto simp: rnd_def Let_def)

lemma rnd_PInf:
  "round_double x = y \<Longrightarrow> max_double < y \<Longrightarrow> rnd (Fin x) = PInf"
  by (auto simp: rnd_def Let_def)

lemma rnd_0: "rnd (Fin 0) = Fin 0"
  by (rule rnd_Fin [OF round_double_0]) (simp add: max_double_def)

lemma rnd_1: "rnd (Fin 1) = Fin 1"
  by (rule rnd_Fin [OF round_double_1]) (simp add: max_double_def)

lemma rnd_2: "rnd (Fin 2) = Fin 2"
  by (rule rnd_Fin [OF round_double_2]) (simp add: max_double_def)

lemma float_pow_one: "float_pow (Fin 1) n = Inr (Fin 1)"
  by (cases n) (simp_all add: float_pow_def)

lemma annuity_zero: "annuity (Fin 0) n = Inl ZeroDivisionError"
  by (simp add: annuity_def float_add_def float_sub_def float_div_def fsub_def
      rnd_0 rnd_1 float_pow_one bind_err_simps)

lemma annuity_absorbed: "annuity (Fin (1 / 2 ^ 60)) (Fin 20) = Inl ZeroDivisionError"
proof -
  have a: "float_add (Fin 1) (Fin (1 / 2 ^ 60)) = Fin 1"
    unfolding float_add_def fadd.simps
    by (rule rnd_Fin [OF round_double_absorb_up]) (simp add: max_double_def)
  have q: "float_div (Fin 1) (Fin 1) = Inr (Fin 1)"
    by (simp add: float_div_def rnd_1)
  have d: "float_sub (Fin 1) (Fin 1) = Fin 0"
    by (simp add: float_sub_def fsub_def rnd_0)
  have e: "float_div (Fin (1 / 2 ^ 60)) (Fin 0) = Inl ZeroDivisionError"
    by (simp add: float_div_def)
  show ?thesis
    by (simp only: annuity_def a float_pow_one q d e bind_err_simps)
qed

lemma annuity_one_60: "annuity (Fin 1) (Fin 60) = Inr (Fin 1)"
proof -
  have a: "float_add (Fin 1) (Fin 1) = Fin 2"
    by (simp add: float_add_def rnd_2)
  have "rnd (Fin (2 ^ 60)) = Fin (2 ^ 60)"
    by (rule rnd_Fin [OF round_double_pow_60]) (simp add: max_double_def)
  then have p: "float_pow (Fin 2) (Fin 60) = Inr (Fin (2 ^ 60))"
    by (simp add: float_pow_def)
  have "rnd (Fin (1 / 2 ^ 60)) = Fin (1 / 2 ^ 60)"
    by (rule rnd_Fin [OF round_double_inv_60]) (simp add: max_double_def)
  then have q: "float_div (Fin 1) (Fin (2 ^ 60)) = Inr (Fin (1 / 2 ^ 60))"
    by (simp add: float_div_def)
  have "rnd (Fin (1 - 1 / 2 ^ 60)) = Fin 1"
    by (rule rnd_Fin [OF round_double_absorb_60]) (simp add: max_double_def)
  then have d: "float_sub (Fin 1) (Fin (1 / 2 ^ 60)) = Fin 1"
    by (simp add: float_sub_def fsub_def)
  have e: "float_div (Fin 1) (Fin 1) = Inr (Fin 1)"
    by (simp add: float_div_def rnd_1)
  show ?thesis
    by (simp only: annuity_def a p q d e bind_err_simps)
qed

lemma annuity_one_64: "annuity (Fin 1) (Fin 64) = Inr (Fin 1)"
proof -
  have a: "float_add (Fin 1) (Fin 1) = Fin 2"
    by (simp add: float_add_def rnd_2)
  have "rnd (Fin (2 ^ 64)) = Fin (2 ^ 64)"
    by (rule rnd_Fin [OF round_double_pow_64]) (simp add: max_double_def)
  then have p: "float_pow (Fin 2) (Fin 64) = Inr (Fin (2 ^ 64))"
    by (simp add: float_pow_def)
  have "rnd (Fin (1 / 2 ^ 64)) = Fin (1 / 2 ^ 64)"
    by (rule rnd_Fin [OF round_double_inv_64]) (simp add: max_double_def)
  then have q: "float_div (Fin 1) (Fin (2 ^ 64)) = Inr (Fin (1 / 2 ^ 64))"
    by (simp add: float_div_def)
  have "rnd (Fin (1 - 1 / 2 ^ 64)) = Fin 1"
    by (rule rnd_Fin [OF round_double_absorb_64]) (simp add: max_double_def)
  then have d: "float_sub (Fin 1) (Fin (1 / 2 ^ 64)) = Fin 1"
    by (simp add: float_sub_def fsub_def)
  have e: "float_div (Fin 1) (Fin 1) = Inr (Fin 1)"
    by (simp add: float_div_def rnd_1)
  show ?thesis
    by (simp only: annuity_def a p q d e bind_err_simps)
qed

lemma round_double_pow_1024: "round_double (2 ^ 1024) = 2 ^ 1024"
  by (subst round_double_eqI [of 1024]) (simp_all add: round_half_even_def power_int_minus)

lemma annuity_overflow: "annuity (Fin 1) (Fin 1024) = Inl OverflowError"
proof -
  have a: "float_add (Fin 1) (Fin 1) = Fin 2"
    by (simp add: float_add_def rnd_2)
  have "rnd (Fin (2 ^ 1024)) = PInf"
    by (rule rnd_PInf [OF round_double_pow_1024]) (simp add: max_double_def)
  then have p: "float_pow (Fin 2) (Fin 1024) = Inl OverflowError"
    by (simp add: float_pow_def)
  show ?thesis
    by (simp only: annuity_def a p bind_err_simps)
qed


lemma annuity_np_zero: "annuity_np (Fin 0) n = NaN"
  by (simp add: annuity_np_def fpow_def fsub_def inf_of_sign_def)

subsection \<open>Reading and writing cells\<close>

lemma index_at_set: "set (index (at_set df r c v)) = insert r (set (index df))"
  by (auto simp: at_set_def)

lemma columns_at_set: "set (columns (at_set df r c v)) = insert c (set (columns df))"
  by (auto simp: at_set_def)

lemma cell_at_set_same: "cell (at_set df r c v) r c = v"
  by (simp add: at_set_def)

lemma cell_at_set_other_row:
  "t \<noteq> r \<Longrightarrow> c \<in> set (columns df) \<Longrightarrow> cell (at_set df r c v) t p = cell df t p"
  by (auto simp: at_set_def)

lemma cell_at_set_other_column:
  "p \<noteq> c \<Longrightarrow> r \<in> set (index df) \<Longrightarrow> cell (at_set df r c v) t p = cell df t p"
  by (auto simp: at_set_def)

lemma at_set_same_value:
  "r \<in> set (index df) \<Longrightarrow> c \<in> set (columns df) \<Longrightarrow> cell df r c = v \<Longrightarrow>
   at_set df r c v = df"
  by (cases df) (auto simp: at_set_def fun_eq_iff)

lemma copy_at_eq:
  "copy_at df dst src c =
     (if src \<in> set (index df) \<and> c \<in> set (columns df)
      then Inr (at_set df dst c (cell df src c)) else Inl KeyError)"
  by (simp add: copy_at_def at_get_def bind_err_simps)

lemma propagate_eq:
  "propagate df =
     (if ''gas'' \<in> set (index df) \<and> ''fuel'' \<in> set (columns df) \<and>
         ''CO2 intensity'' \<in> set (columns df)
      then Inr (propagated df) else Inl KeyError)"
proof (cases "''gas'' \<in> set (index df) \<and> ''fuel'' \<in> set (columns df)")
  case False
  then show ?thesis by (auto simp: propagate_def copy_at_eq bind_err_simps)
next
  case True
  let ?g = "cell df ''gas'' ''fuel''"
  let ?d1 = "at_set df ''OCGT'' ''fuel'' ?g"
  let ?d2 = "at_set ?d1 ''CCGT'' ''fuel'' ?g"
  have s1: "copy_at df ''OCGT'' ''gas'' ''fuel'' = Inr ?d1"
    using True by (simp add: copy_at_eq)
  have g1: "cell ?d1 ''gas'' ''fuel'' = ?g"
    using True by (simp add: cell_at_set_other_row)
  have s2: "copy_at ?d1 ''CCGT'' ''gas'' ''fuel'' = Inr ?d2"
    using True by (simp add: copy_at_eq index_at_set columns_at_set g1)
  have i2: "''gas'' \<in> set (index ?d2)" using True by (simp add: index_at_set)
  have c2: "''CO2 intensity'' \<in> set (columns ?d2) \<longleftrightarrow> ''CO2 intensity'' \<in> set (columns df)"
    by (simp add: columns_at_set)
  show ?thesis
  proof (cases "''CO2 intensity'' \<in> set (columns df)")
    case False
    with c2 have "copy_at ?d2 ''OCGT'' ''gas'' ''CO2 intensity'' = Inl KeyError"
      by (simp add: copy_at_eq)
    with False show ?thesis by (simp add: propagate_def s1 s2 bind_err_simps)
  next
    case co: True
    let ?e = "cell df ''gas'' ''CO2 intensity''"
    let ?d3 = "at_set ?d2 ''OCGT'' ''CO2 intensity'' ?e"
    have e2: "cell ?d2 ''gas'' ''CO2 intensity'' = ?e"
      using True co by (simp add: cell_at_set_other_row columns_at_set)
    have s3: "copy_at ?d2 ''OCGT'' ''gas'' ''CO2 intensity'' = Inr ?d3"
      using i2 c2 co by (simp add: copy_at_eq e2)
    have e3: "cell ?d3 ''gas'' ''CO2 intensity'' = ?e"
      using co e2 by (simp add: cell_at_set_other_row columns_at_set)
    have s4: "copy_at ?d3 ''CCGT'' ''gas'' ''CO2 intensity'' =
        Inr (at_set ?d3 ''CCGT'' ''CO2 intensity'' ?e)"
      using i2 co by (simp add: copy_at_eq e3 index_at_set columns_at_set)
    from True co show ?thesis
      by (simp add: propagate_def s1 s2 s3 s4 bind_err_simps propagated_def)
  qed
qed

lemma cell_propagated:
  assumes "''fuel'' \<in> set (columns df)" "''CO2 intensity'' \<in> set (columns df)"
  shows "cell (propagated df) t p =
     (if (t = ''OCGT'' \<or> t = ''CCGT'') \<and> (p = ''fuel'' \<or> p = ''CO2 intensity'')
      then cell df ''gas'' p
      else if (t = ''OCGT'' \<and> ''OCGT'' \<notin> set (index df)) \<or>
              (t = ''CCGT'' \<and> ''CCGT'' \<notin> set (index df)) then NaN
      else cell df t p)"
  using assms by (simp add: propagated_def at_set_def)

lemma index_propagated: "set (index (propagated df)) = {''OCGT'', ''CCGT''} \<union> set (index df)"
  by (auto simp: propagated_def index_at_set)

lemma columns_propagated:
  "set (columns (propagated df)) = {''fuel'', ''CO2 intensity''} \<union> set (columns df)"
  by (auto simp: propagated_def columns_at_set)

lemma propagated_idem:
  assumes "''gas'' \<in> set (index df)" "''fuel'' \<in> set (columns df)"
    "''CO2 intensity'' \<in> set (columns df)"
  shows "propagated (propagated df) = propagated df"
proof -
  let ?w = "propagated df"
  have f: "''fuel'' \<in> set (columns ?w)" and c: "''CO2 intensity'' \<in> set (columns ?w)"
    and o: "''OCGT'' \<in> set (index ?w)" and cc: "''CCGT'' \<in> set (index ?w)"
    by (simp_all add: index_propagated columns_propagated)
  have gf: "cell ?w ''gas'' ''fuel'' = cell df ''gas'' ''fuel''"
    and gc: "cell ?w ''gas'' ''CO2 intensity'' = cell df ''gas'' ''CO2 intensity''"
    using assms by (simp_all add: cell_propagated)
  have v: "cell ?w ''OCGT'' ''fuel'' = cell ?w ''gas'' ''fuel''"
    "cell ?w ''CCGT'' ''fuel'' = cell ?w ''gas'' ''fuel''"
    "cell ?w ''OCGT'' ''CO2 intensity'' = cell ?w ''gas'' ''CO2 intensity''"
    "cell ?w ''CCGT'' ''CO2 intensity'' = cell ?w ''gas'' ''CO2 intensity''"
    using assms by (simp_all add: cell_propagated)
  show ?thesis
    by (subst propagated_def) (simp add: at_set_same_value f c o cc v)
qed

subsection \<open>Idempotence of the steps\<close>

lemma rescale_row_idem: "rescale_row (rescale_row r) = rescale_row r"
  by (simp add: rescale_row_def kW_gone str_replace_no_match)

lemma rescale_idem: "rescale (rescale rows) = rescale rows"
  by (simp add: rescale_def rescale_row_idem)

lemma fillna_idem: "fillna d (fillna d df) = fillna d df"
  by (cases df) (auto simp: fillna_def fun_eq_iff split: option.splits)

lemma propagate_idem: "propagate w = Inr w' \<Longrightarrow> propagate w' = Inr w'"
  by (auto simp: propagate_eq index_propagated columns_propagated propagated_idem
      split: if_splits)

lemma cost_cell_rerun: "cost_cell costs = Inr out \<Longrightarrow> cost_cell out = Inl AttributeError"
  by (auto simp: cost_cell_def bind_err_def split: frame.splits sum.splits)

lemma unstack_example:
  "unstack (rescale example_raw) = Inr w \<Longrightarrow>
     index w = [''CCGT'', ''OCGT'', ''gas''] \<and>
     columns w = [''CO2 intensity'', ''efficiency'', ''fuel'', ''investment'', ''lifetime'']"
  by (auto simp: unstack_def rescale_def rescale_row_def example_raw_def split: if_splits)

lemma unstack_example_ok: "\<not> isl (unstack (rescale example_raw))"
  by (simp add: unstack_def rescale_def rescale_row_def example_raw_def)

lemma cost_cell_example: "\<not> isl (cost_cell (Long example_raw))"
proof -
  from unstack_example_ok obtain w where w: "unstack (rescale example_raw) = Inr w"
    by (cases "unstack (rescale example_raw)") auto
  from unstack_example [OF w] show ?thesis
    by (simp add: cost_cell_def w bind_err_simps propagate_eq fillna_def)
qed

subsection \<open>The cost columns\<close>

lemma marginal_cost_eq:
  "marginal_cost df =
     (if ''VOM'' \<in> set (columns df) \<and> ''fuel'' \<in> set (columns df) \<and>
         ''efficiency'' \<in> set (columns df)
      then Inr (setitem df ''marginal_cost''
             (\<lambda>t. fadd (cell df t ''VOM'') (fdiv (cell df t ''fuel'') (cell df t ''efficiency''))))
      else Inl KeyError)"
  by (simp add: marginal_cost_def getitem_def bind_err_simps)


lemma cell_setitem: "cell (setitem df c s) t p = (if p = c then s t else cell df t p)"
  by (simp add: setitem_def)

section \<open>Claims\<close>

subsection \<open>C1: the annuity at discount rate zero\<close>

text \<open>
  C1, as stated: for every lifetime \<open>n > 0\<close>, the annuity function at \<open>r = 0\<close> does not
  divide by zero, does not raise, and returns \<open>1 / n\<close>. The function has no case for
  \<open>r = 0\<close>: at lifetime 20 the call with Python numbers raises
  \<^verbatim>\<open>ZeroDivisionError\<close> and the call on float64 scalars yields \<open>NaN\<close>.
\<close>

theorem annuity_at_zero_counterexample:
  "annuity (Fin 0) (Fin 20) = Inl ZeroDivisionError \<and>
   annuity (Fin 0) (Fin 20) \<noteq> Inr (Fin (1 / 20)) \<and>
   annuity_np (Fin 0) (Fin 20) = NaN"
  by (simp add: annuity_zero annuity_np_zero)

text \<open>
  C1, amended: for every lifetime \<open>n > 0\<close>, evaluating the annuity function at \<open>r = 0\<close>
  divides by zero: called with Python numbers it raises \<^verbatim>\<open>ZeroDivisionError\<close>, called
  on the float64 scalars of a table row it returns \<open>NaN\<close>. In neither case does it
  return \<open>1 / n\<close>.
\<close>

theorem annuity_at_zero:
  assumes "0 < n"
  shows "annuity (Fin 0) (Fin n) = Inl ZeroDivisionError \<and>
         annuity (Fin 0) (Fin n) \<noteq> Inr (Fin (1 / n)) \<and>
         annuity_np (Fin 0) (Fin n) = NaN \<and>
         annuity_np (Fin 0) (Fin n) \<noteq> Fin (1 / n)"
  by (simp add: annuity_zero annuity_np_zero)

theorem annuity_at_zero_witness:
  "(0::real) < 25 \<and>
   annuity (Fin 0) (Fin 25) = Inl ZeroDivisionError \<and>
   annuity_np (Fin 0) (Fin 25) = NaN"
  using annuity_at_zero [of 25] by simp

subsection \<open>C9: monotonicity of the annuity\<close>

text \<open>
  C9, as stated: the annuity is strictly increasing in the discount rate (for every
  lifetime \<open>n > 0\<close>, over \<open>r > 0\<close>) and strictly decreasing in the lifetime (for every
  \<open>r > 0\<close>). The function computes in double precision: at \<open>r = 1\<close> it returns exactly
  1.0 for the lifetimes 60 and 64, since \<open>1 - 2\<^sup>-\<^sup>6\<^sup>0\<close> rounds to 1, and at the positive
  rate \<open>2\<^sup>-\<^sup>6\<^sup>0\<close> it returns no value, since \<open>1 + 2\<^sup>-\<^sup>6\<^sup>0\<close> rounds to 1 and the divisor
  is zero.
\<close>

theorem annuity_monotone_counterexample:
  "annuity (Fin 1) (Fin 60) = Inr (Fin 1) \<and>
   annuity (Fin 1) (Fin 64) = Inr (Fin 1) \<and>
   annuity (Fin (1 / 2 ^ 60)) (Fin 20) = Inl ZeroDivisionError"
  by (simp only: annuity_one_60 annuity_one_64 annuity_absorbed simp_thms)

text \<open>
  C9, amended: over the real numbers, the annuity formula
  \<open>a(r, n) = r / (1 - (1 + r)\<^sup>-\<^sup>n)\<close> of the notebook is strictly increasing in \<open>r\<close> (for
  every \<open>n > 0\<close>, over \<open>r > 0\<close>) and strictly decreasing in \<open>n\<close> (for every \<open>r > 0\<close>, over
  \<open>n > 0\<close>). The function \<^verbatim>\<open>annuity\<close> evaluates the formula in double precision and
  is not strictly monotone: at \<open>r = 1\<close> it returns exactly 1.0 for \<open>n = 60\<close> and for
  \<open>n = 64\<close>, at \<open>r = 2\<^sup>-\<^sup>6\<^sup>0\<close>, \<open>n = 20\<close> it raises \<^verbatim>\<open>ZeroDivisionError\<close>, and at
  \<open>r = 1\<close>, \<open>n = 1024\<close> it raises \<^verbatim>\<open>OverflowError\<close>.
\<close>

theorem annuity_formula_monotone:
  "(0 < n \<and> 0 < r1 \<and> r1 < r2 \<longrightarrow> annuity_value r1 n < annuity_value r2 n) \<and>
   (0 < r \<and> 0 < n1 \<and> n1 < n2 \<longrightarrow> annuity_value r n2 < annuity_value r n1) \<and>
   annuity (Fin 1) (Fin 60) = Inr (Fin 1) \<and>
   annuity (Fin 1) (Fin 64) = Inr (Fin 1) \<and>
   annuity (Fin (1 / 2 ^ 60)) (Fin 20) = Inl ZeroDivisionError \<and>
   annuity (Fin 1) (Fin 1024) = Inl OverflowError"
proof -
  have a: "0 < n \<and> 0 < r1 \<and> r1 < r2 \<longrightarrow> annuity_value r1 n < annuity_value r2 n"
    using annuity_value_mono_r by blast
  have b: "0 < r \<and> 0 < n1 \<and> n1 < n2 \<longrightarrow> annuity_value r n2 < annuity_value r n1"
    using annuity_value_antimono_n by blast
  from a b show ?thesis
    by (simp only: annuity_one_60 annuity_one_64 annuity_absorbed annuity_overflow simp_thms)
qed

theorem annuity_formula_monotone_witness:
  "annuity_value (5 / 100) 20 < annuity_value (7 / 100) 20 \<and>
   annuity_value (7 / 100) 25 < annuity_value (7 / 100) 20"
  using annuity_formula_monotone [of 20 "5 / 100" "7 / 100" "7 / 100" 20 25] by simp

subsection \<open>C2: running the normalizer twice\<close>

text \<open>
  C2, as stated: for every raw cost table, running the cost normalizer (rescaling,
  default filling, propagation) a second time on its own output gives the result of
  running it once. The cell turns the raw table into the pivoted table, which has no
  unit column: on the example table the first run returns a table and the second run,
  on that table, raises \<^verbatim>\<open>AttributeError\<close>.
\<close>

theorem normalizer_rerun_counterexample:
  "\<not> isl (cost_cell (Long example_raw)) \<and>
   run_twice (Long example_raw) = Inl AttributeError \<and>
   run_twice (Long example_raw) \<noteq> cost_cell (Long example_raw)"
proof -
  from cost_cell_example obtain out where out: "cost_cell (Long example_raw) = Inr out"
    by (cases "cost_cell (Long example_raw)") auto
  from cost_cell_rerun [OF out] out show ?thesis
    by (simp add: run_twice_def bind_err_simps)
qed

text \<open>
  C2, amended: each step of the normalizer is idempotent on the table it applies to.
  Rescaling a rescaled raw table changes no value and no unit string (no unit contains
  \<^verbatim>\<open>/kW\<close> after the rewrite, so no value is rescaled twice); filling a filled table
  changes nothing; propagating on a propagated table changes nothing. The cell as a
  whole cannot run on its own output: it raises \<^verbatim>\<open>AttributeError\<close>.
\<close>

theorem normalizer_steps_idempotent:
  "rescale (rescale rows) = rescale rows \<and>
   fillna defaults (fillna defaults w) = fillna defaults w \<and>
   (propagate w = Inr w' \<longrightarrow> propagate w' = Inr w') \<and>
   (cost_cell costs = Inr out \<longrightarrow> run_twice costs = Inl AttributeError)"
  using rescale_idem fillna_idem propagate_idem cost_cell_rerun
  by (auto simp: run_twice_def bind_err_simps)

theorem normalizer_steps_idempotent_witness:
  "val (rescale example_raw ! 2) = Fin 400000 \<and>
   val (rescale (rescale example_raw) ! 2) = Fin 400000 \<and>
   propagate example_wide = Inr (propagated example_wide) \<and>
   propagate (propagated example_wide) = Inr (propagated example_wide) \<and>
   \<not> isl (cost_cell (Long example_raw)) \<and>
   run_twice (Long example_raw) = Inl AttributeError"
proof -
  have p: "propagate example_wide = Inr (propagated example_wide)"
    by (simp add: propagate_eq example_wide_def)
  from cost_cell_example obtain out where out: "cost_cell (Long example_raw) = Inr out"
    by (cases "cost_cell (Long example_raw)") auto
  have v: "val (rescale example_raw ! 2) = Fin 400000"
    by (simp add: rescale_def rescale_row_def example_raw_def)
  from normalizer_steps_idempotent [of example_raw example_wide
      "propagated example_wide" "Long example_raw" out] p out v
  show ?thesis by simp
qed

subsection \<open>C3: default filling\<close>

text \<open>
  C3: default filling leaves every present value as it is (an efficiency of 0.42 stays
  0.42) and puts into a missing cell of the table exactly the declared default of its
  column: 0 for FOM, VOM, fuel, investment and CO2 intensity, 1 for efficiency, 25 for
  lifetime, 0.07 for discount rate; a missing cell of any other column stays missing.
  Row and column labels do not change.
\<close>

theorem fillna_only_missing:
  "(cell df t p \<noteq> NaN \<longrightarrow> cell (fillna defaults df) t p = cell df t p) \<and>
   (t' \<in> set (index df) \<and> p' \<in> set (columns df) \<and> cell df t' p' = NaN \<longrightarrow>
      cell (fillna defaults df) t' p' =
        (if p' = ''FOM'' then Fin 0
         else if p' = ''VOM'' then Fin 0
         else if p' = ''efficiency'' then Fin 1
         else if p' = ''fuel'' then Fin 0
         else if p' = ''investment'' then Fin 0
         else if p' = ''lifetime'' then Fin 25
         else if p' = ''CO2 intensity'' then Fin 0
         else if p' = ''discount rate'' then Fin (7 / 100)
         else NaN)) \<and>
   index (fillna defaults df) = index df \<and> columns (fillna defaults df) = columns df"
  by (simp add: fillna_def defaults_def)

theorem fillna_only_missing_witness:
  "cell example_wide ''OCGT'' ''efficiency'' = Fin (42 / 100) \<and>
   cell (fillna defaults example_wide) ''OCGT'' ''efficiency'' = Fin (42 / 100) \<and>
   ''CCGT'' \<in> set (index example_wide) \<and> ''efficiency'' \<in> set (columns example_wide) \<and>
   cell example_wide ''CCGT'' ''efficiency'' = NaN \<and>
   cell (fillna defaults example_wide) ''CCGT'' ''efficiency'' = Fin 1"
  using fillna_only_missing [of example_wide "''OCGT''" "''efficiency''" "''CCGT''" "''efficiency''"]
  by (simp add: example_wide_def)

subsection \<open>C6: the copied values are independent of the gas row\<close>

text \<open>
  C6: after propagation, writing any value \<open>v\<close> into the fuel cost or the CO2 intensity
  of the gas row leaves the fuel cost and the CO2 intensity of the OCGT and CCGT rows
  unchanged: they still hold the values the gas row had when they were copied.
\<close>

theorem propagated_copies_independent:
  assumes "propagate df = Inr df'"
    and "c = ''fuel'' \<or> c = ''CO2 intensity''"
    and "t = ''OCGT'' \<or> t = ''CCGT''"
  shows "cell (at_set df' ''gas'' c v) t ''fuel'' = cell df' t ''fuel'' \<and>
         cell (at_set df' ''gas'' c v) t ''CO2 intensity'' = cell df' t ''CO2 intensity'' \<and>
         cell (at_set df' ''gas'' c v) t ''fuel'' = cell df ''gas'' ''fuel'' \<and>
         cell (at_set df' ''gas'' c v) t ''CO2 intensity'' = cell df ''gas'' ''CO2 intensity'' \<and>
         cell (at_set df' ''gas'' c v) ''gas'' c = v"
proof -
  from assms(1) have df': "df' = propagated df"
    and cols: "''fuel'' \<in> set (columns df)" "''CO2 intensity'' \<in> set (columns df)"
    by (auto simp: propagate_eq split: if_splits)
  have c: "c \<in> set (columns df')" using assms(2) cols by (auto simp: df' columns_propagated)
  have t: "t \<noteq> ''gas''" using assms(3) by auto
  have keep: "cell (at_set df' ''gas'' c v) t p = cell df' t p" for p
    using t c by (rule cell_at_set_other_row)
  have "cell df' t ''fuel'' = cell df ''gas'' ''fuel''"
    "cell df' t ''CO2 intensity'' = cell df ''gas'' ''CO2 intensity''"
    using assms(3) cols by (auto simp: df' cell_propagated)
  then show ?thesis by (simp add: keep cell_at_set_same)
qed

theorem propagated_copies_independent_witness:
  "propagate example_wide = Inr (propagated example_wide) \<and>
   cell (at_set (propagated example_wide) ''gas'' ''fuel'' (Fin 99)) ''gas'' ''fuel'' = Fin 99 \<and>
   cell (at_set (propagated example_wide) ''gas'' ''fuel'' (Fin 99)) ''OCGT'' ''fuel'' = Fin 20"
proof -
  have p: "propagate example_wide = Inr (propagated example_wide)"
    by (simp add: propagate_eq example_wide_def)
  have v: "cell example_wide ''gas'' ''fuel'' = Fin 20" by (simp add: example_wide_def)
  have "cell (at_set (propagated example_wide) ''gas'' ''fuel'' (Fin 99)) ''OCGT'' ''fuel'' =
      cell example_wide ''gas'' ''fuel'' \<and>
    cell (at_set (propagated example_wide) ''gas'' ''fuel'' (Fin 99)) ''gas'' ''fuel'' = Fin 99"
    using propagated_copies_independent [OF p, of "''fuel''" "''OCGT''" "Fin 99"] by blast
  with p v show ?thesis by (simp only: simp_thms)
qed

subsection \<open>C7: propagation without a gas row\<close>

text \<open>
  C7, as stated: on every cost table without the gas technology, propagation fails with
  \<open>MissingReferenceError\<close>. The notebook defines no such exception: on a table with
  OCGT and CCGT rows only, the read \<^verbatim>\<open>costs.at["gas", "fuel"]\<close> raises pandas'
  \<^verbatim>\<open>KeyError\<close>.
\<close>

theorem propagate_missing_gas_counterexample:
  "''gas'' \<notin> set (index example_no_gas) \<and>
   propagate example_no_gas = Inl KeyError \<and>
   propagate example_no_gas \<noteq> Inl MissingReferenceError"
  by (simp add: propagate_eq example_no_gas_def)

text \<open>
  C7, amended: on every cost table without the gas technology, propagation fails with
  \<^verbatim>\<open>KeyError\<close>, raised by its first read, and returns no table.
\<close>

theorem propagate_missing_gas:
  assumes "''gas'' \<notin> set (index df)"
  shows "propagate df = Inl KeyError"
  using assms by (simp add: propagate_eq)

theorem propagate_missing_gas_witness:
  "''gas'' \<notin> set (index example_no_gas) \<and> propagate example_no_gas = Inl KeyError"
proof -
  have m: "''gas'' \<notin> set (index example_no_gas)" by (simp add: example_no_gas_def)
  from propagate_missing_gas [OF m] m show ?thesis by simp
qed

subsection \<open>C10: propagation overwrites\<close>

text \<open>
  C10: on every cost table with gas, OCGT and CCGT rows, after propagation the fuel cost
  and the CO2 intensity of the OCGT and CCGT rows equal those of the gas row, whatever
  the two rows held before; the gas row keeps its values.
\<close>

theorem propagate_overwrites:
  assumes "''gas'' \<in> set (index df)" "''OCGT'' \<in> set (index df)" "''CCGT'' \<in> set (index df)"
    and "propagate df = Inr df'"
  shows "cell df' ''OCGT'' ''fuel'' = cell df ''gas'' ''fuel'' \<and>
         cell df' ''CCGT'' ''fuel'' = cell df ''gas'' ''fuel'' \<and>
         cell df' ''OCGT'' ''CO2 intensity'' = cell df ''gas'' ''CO2 intensity'' \<and>
         cell df' ''CCGT'' ''CO2 intensity'' = cell df ''gas'' ''CO2 intensity'' \<and>
         cell df' ''gas'' ''fuel'' = cell df ''gas'' ''fuel'' \<and>
         cell df' ''gas'' ''CO2 intensity'' = cell df ''gas'' ''CO2 intensity''"
  using assms by (auto simp: propagate_eq cell_propagated split: if_splits)

theorem propagate_overwrites_witness:
  "''gas'' \<in> set (index example_wide) \<and> ''OCGT'' \<in> set (index example_wide) \<and>
   ''CCGT'' \<in> set (index example_wide) \<and>
   propagate example_wide = Inr (propagated example_wide) \<and>
   cell example_wide ''OCGT'' ''fuel'' = Fin 5 \<and>
   cell example_wide ''gas'' ''fuel'' = Fin 20 \<and>
   cell (propagated example_wide) ''OCGT'' ''fuel'' = Fin 20"
proof -
  have m: "''gas'' \<in> set (index example_wide)" "''OCGT'' \<in> set (index example_wide)"
    "''CCGT'' \<in> set (index example_wide)"
    by (simp_all add: example_wide_def)
  have p: "propagate example_wide = Inr (propagated example_wide)"
    by (simp add: propagate_eq example_wide_def)
  have v: "cell example_wide ''OCGT'' ''fuel'' = Fin 5" "cell example_wide ''gas'' ''fuel'' = Fin 20"
    by (simp_all add: example_wide_def)
  from propagate_overwrites [OF m p] m p v show ?thesis by simp
qed


subsection \<open>C4: marginal cost\<close>

text \<open>
  C4: for every technology of the table with finite variable cost \<open>v\<close>, fuel cost \<open>f\<close>
  and efficiency \<open>e > 0\<close>, the marginal cost column holds \<open>v + f / e\<close>; with the fuel
  cost doubled and the rest unchanged it holds \<open>v + 2 (f / e)\<close>, so the fuel part
  exactly doubles. The generator loop of the dispatch notebook, which has no variable
  cost, computes \<open>f / e\<close> from its dictionaries for every efficiency above zero.
\<close>

theorem marginal_cost_formula:
  assumes "marginal_cost df = Inr df'" and "t \<in> set (index df)"
    and "cell df t ''VOM'' = Fin v" and "cell df t ''fuel'' = Fin f"
    and "cell df t ''efficiency'' = Fin e" and "0 < e"
  shows "cell df' t ''marginal_cost'' = Fin (v + f / e) \<and>
         (\<exists>df2. marginal_cost (at_set df t ''fuel'' (Fin (2 * f))) = Inr df2 \<and>
                cell df2 t ''marginal_cost'' = Fin (v + 2 * (f / e))) \<and>
         (0 < dict_get efficiency tech 1 \<longrightarrow>
            dispatch_marginal_cost fuel_cost efficiency tech =
              Inr (dict_get fuel_cost tech 0 / dict_get efficiency tech 1))"
proof -
  from assms(1) have cols: "''VOM'' \<in> set (columns df)" "''fuel'' \<in> set (columns df)"
    "''efficiency'' \<in> set (columns df)"
    and df': "df' = setitem df ''marginal_cost''
       (\<lambda>t. fadd (cell df t ''VOM'') (fdiv (cell df t ''fuel'') (cell df t ''efficiency'')))"
    by (auto simp: marginal_cost_eq split: if_splits)
  have a: "cell df' t ''marginal_cost'' = Fin (v + f / e)"
    using assms by (simp add: df' cell_setitem)
  let ?d = "at_set df t ''fuel'' (Fin (2 * f))"
  have c2: "cell ?d t ''VOM'' = Fin v" "cell ?d t ''fuel'' = Fin (2 * f)"
    "cell ?d t ''efficiency'' = Fin e"
    using assms cols by (simp_all add: at_set_def)
  have "''VOM'' \<in> set (columns ?d)" "''fuel'' \<in> set (columns ?d)"
    "''efficiency'' \<in> set (columns ?d)"
    using cols by (simp_all add: columns_at_set)
  then have b: "\<exists>df2. marginal_cost ?d = Inr df2 \<and>
      cell df2 t ''marginal_cost'' = Fin (v + 2 * (f / e))"
    using c2 assms(6) by (simp add: marginal_cost_eq cell_setitem)
  have c: "0 < dict_get efficiency tech 1 \<longrightarrow>
      dispatch_marginal_cost fuel_cost efficiency tech =
        Inr (dict_get fuel_cost tech 0 / dict_get efficiency tech 1)"
    by (simp add: dispatch_marginal_cost_def py_truediv_def)
  from a b c show ?thesis by blast
qed

theorem marginal_cost_formula_witness:
  "\<not> isl (marginal_cost example_costs) \<and>
   cell (projr (marginal_cost example_costs)) ''OCGT'' ''marginal_cost'' = Fin (4 + 20 / (2 / 5)) \<and>
   cell (projr (marginal_cost (at_set example_costs ''OCGT'' ''fuel'' (Fin (2 * 20)))))
     ''OCGT'' ''marginal_cost'' = Fin (4 + 2 * (20 / (2 / 5))) \<and>
   dispatch_marginal_cost [''gas'' \<mapsto> 100] [''gas'' \<mapsto> 58 / 100] ''gas'' = Inr (100 / (58 / 100))"
proof -
  have ok: "\<not> isl (marginal_cost example_costs)"
    by (simp add: marginal_cost_eq example_costs_def)
  then have m: "marginal_cost example_costs = Inr (projr (marginal_cost example_costs))"
    by simp
  have h: "''OCGT'' \<in> set (index example_costs)"
    "cell example_costs ''OCGT'' ''VOM'' = Fin 4"
    "cell example_costs ''OCGT'' ''fuel'' = Fin 20"
    "cell example_costs ''OCGT'' ''efficiency'' = Fin (2 / 5)" "(0::real) < 2 / 5"
    by (simp_all add: example_costs_def)
  have d: "(0::real) < dict_get [''gas'' \<mapsto> 58 / 100] ''gas'' 1"
    by (simp add: dict_get_def)
  from marginal_cost_formula [OF m h, of "[''gas'' \<mapsto> 58 / 100]" "''gas''" "[''gas'' \<mapsto> 100]"] d ok
  show ?thesis by (auto simp: dict_get_def)
qed

subsection \<open>C5: annualised capital cost\<close>




end
